theory Spec2Isabelle
  imports Main "HOL-Library.AList" "HOL-Library.Sublist"
begin

section \<open>JavaScript values used by \<^verbatim>\<open>src/lib/simctl.js\<close>\<close>

text \<open>
  A JavaScript string is modelled as a \<^typ>\<open>string\<close>: a list of code units, here the
  code units \<open>U+0000\<close> to \<open>U+00FF\<close>. The character classes below are the ECMAScript
  ones cut down to that range: \<open>WhiteSpace\<close> and \<open>LineTerminator\<close> (what
  \<^verbatim>\<open>String.prototype.trim\<close> strips and what \<^verbatim>\<open>\s\<close> matches), the line
  terminators (what \<^verbatim>\<open>.\<close> refuses) and the word characters of \<^verbatim>\<open>\w\<close>.
\<close>

definition is_line_terminator :: "char \<Rightarrow> bool" where
  "is_line_terminator c \<longleftrightarrow> c = CHR 0x0A \<or> c = CHR 0x0D"

definition is_white_space :: "char \<Rightarrow> bool" where
  "is_white_space c \<longleftrightarrow>
     c = CHR 0x09 \<or> c = CHR 0x0A \<or> c = CHR 0x0B \<or> c = CHR 0x0C \<or> c = CHR 0x0D \<or>
     c = CHR 0x20 \<or> c = CHR 0xA0"

definition is_word_char :: "char \<Rightarrow> bool" where
  "is_word_char c \<longleftrightarrow>
     (let n = (of_char c :: nat)
      in (48 \<le> n \<and> n \<le> 57) \<or> (65 \<le> n \<and> n \<le> 90) \<or> (97 \<le> n \<and> n \<le> 122) \<or> n = 95)"

text \<open>\<^verbatim>\<open>s.trim()\<close>.\<close>

definition trim :: "string \<Rightarrow> string" where
  "trim s = rev (dropWhile is_white_space (rev (dropWhile is_white_space s)))"

text \<open>
  \<^verbatim>\<open>s.split(c)\<close> for a separator \<open>c\<close> of one character: the pieces between the
  separators, never an empty array (\<^verbatim>\<open>''.split('|')\<close> is \<^verbatim>\<open>['']\<close>).
\<close>

fun split_on :: "char \<Rightarrow> string \<Rightarrow> string list" where
  "split_on c [] = [[]]"
| "split_on c (x # xs) =
     (if x = c then [] # split_on c xs
      else (case split_on c xs of y # ys \<Rightarrow> (x # y) # ys | [] \<Rightarrow> [[x]]))"

text \<open>
  \<^verbatim>\<open>s.replace(pat, rep)\<close> for a string pattern: the first occurrence only (the
  replacement strings of the source hold no \<^verbatim>\<open>$\<close>).
\<close>

fun replace_first :: "string \<Rightarrow> string \<Rightarrow> string \<Rightarrow> string" where
  "replace_first pat rep [] = (if pat = [] then rep else [])"
| "replace_first pat rep (x # xs) =
     (if prefix pat (x # xs) then rep @ drop (length pat) (x # xs)
      else x # replace_first pat rep xs)"

text \<open>\<^verbatim>\<open>xs[i]\<close>: the undefined value (\<open>None\<close>) beyond the end of the array.\<close>

definition nth_opt :: "'a list \<Rightarrow> nat \<Rightarrow> 'a option" where
  "nth_opt xs i = (if i < length xs then Some (xs ! i) else None)"

text \<open>
  The key under which \<^verbatim>\<open>obj[v]\<close> reads and writes (\<open>ToPropertyKey\<close>): the
  undefined value is the key \<^verbatim>\<open>"undefined"\<close>.
\<close>

definition property_key :: "string option \<Rightarrow> string" where
  "property_key v = (case v of None \<Rightarrow> ''undefined'' | Some s \<Rightarrow> s)"

text \<open>Truthiness of a value that is a string, \<^verbatim>\<open>null\<close> or \<^verbatim>\<open>undefined\<close>.\<close>

definition truthy :: "string option \<Rightarrow> bool" where
  "truthy v = (case v of None \<Rightarrow> False | Some s \<Rightarrow> s \<noteq> [])"

text \<open>
  The object literal \<^verbatim>\<open>{}\<close> inherits from \<^verbatim>\<open>Object.prototype\<close>: reading one
  of these keys from an object that has no own property of that name yields the inherited
  member (a function, or \<^verbatim>\<open>Object.prototype\<close> itself for \<^verbatim>\<open>__proto__\<close>),
  which is truthy and has no \<^verbatim>\<open>push\<close>.
\<close>

definition object_prototype_keys :: "string list" where
  "object_prototype_keys =
     [''constructor'', ''__defineGetter__'', ''__defineSetter__'', ''hasOwnProperty'',
      ''__lookupGetter__'', ''__lookupSetter__'', ''isPrototypeOf'', ''propertyIsEnumerable'',
      ''toString'', ''valueOf'', ''__proto__'', ''toLocaleString'']"

text \<open>
  An error object: its constructor, its message and its \<^verbatim>\<open>stderr\<close> property
  (\<open>None\<close> when the error has none). The result of a call that may throw is a sum,
  \<open>Inl\<close> the error thrown.
\<close>

record js_error =
  kind :: string
  message :: string
  stderr :: "string option"

definition new_Error :: "string \<Rightarrow> js_error" where
  "new_Error msg = \<lparr>kind = ''Error'', message = msg, stderr = None\<rparr>"

definition TypeError :: "string \<Rightarrow> js_error" where
  "TypeError msg = \<lparr>kind = ''TypeError'', message = msg, stderr = None\<rparr>"

definition ReferenceError :: "string \<Rightarrow> js_error" where
  "ReferenceError msg = \<lparr>kind = ''ReferenceError'', message = msg, stderr = None\<rparr>"

text \<open>
  \<^verbatim>\<open>log.errorAndThrow\<close> of the logger: it throws its argument when that is an error
  object, and a new \<^verbatim>\<open>Error\<close> with the argument as message when it is a string.
  What the logger prints is not modelled.
\<close>

definition errorAndThrow :: "js_error \<Rightarrow> js_error + 'a" where
  "errorAndThrow e = Inl e"

definition errorAndThrow_message :: "string \<Rightarrow> js_error + 'a" where
  "errorAndThrow_message msg = Inl (new_Error msg)"





section \<open>The platform and the trace of a call\<close>

text \<open>
  Everything outside the file is a parameter: the process environment, the outcome of
  \<^verbatim>\<open>exec\<close> of \<^verbatim>\<open>teen_process\<close> (the default executing function of
  \<^verbatim>\<open>simCommand\<close>), of \<^verbatim>\<open>tempDir.path\<close>, of \<^verbatim>\<open>fs.readFile\<close> and of
  \<^verbatim>\<open>fs.rimraf\<close>, each a function of what has happened so far. A call takes the trace
  of the events so far and returns it extended. The event \<open>Exec inv\<close> records that
  \<^verbatim>\<open>simCommand\<close> has called its executing function with the executable, the arguments
  and the options of \<open>inv\<close>; whether the tool then runs is up to that function.
\<close>

record invocation =
  exe :: string
  argv :: "string list"
  opt_timeout :: int
  opt_env :: "(string \<times> string) list"

datatype event =
    Exec invocation
  | Sleep int
  | TempDirPath string string
  | ReadFile string
  | Rimraf string

record exec_result =
  stdout :: "string option"

record platform =
  process_env :: "(string \<times> string) list"
  exec :: "event list \<Rightarrow> invocation \<Rightarrow> js_error + exec_result"
  tempDir_path :: "event list \<Rightarrow> string \<Rightarrow> string \<Rightarrow> js_error + string"
  fs_readFile :: "event list \<Rightarrow> string \<Rightarrow> js_error + string"
  fs_rimraf :: "event list \<Rightarrow> string \<Rightarrow> js_error + unit"
  toString_base64 :: "string \<Rightarrow> string"

section \<open>simCommand and simExec\<close>

text \<open>
  \<^verbatim>\<open>_.mapKeys(env, f)\<close> and \<^verbatim>\<open>_.defaults(object, source)\<close> on objects whose
  values are strings, an object being the list of its own properties: \<open>defaults\<close> adds
  the properties of the source that the object does not have.
\<close>

definition mapKeys :: "(string \<times> string) list \<Rightarrow> (string \<Rightarrow> string \<Rightarrow> string) \<Rightarrow> (string \<times> string) list" where
  "mapKeys obj f = map (\<lambda>(key, value). (f value key, value)) obj"

definition defaults :: "(string \<times> string) list \<Rightarrow> (string \<times> string) list \<Rightarrow> (string \<times> string) list" where
  "defaults obj source = obj @ filter (\<lambda>(key, value). map_of obj key = None) source"

definition simCommand ::
  "platform \<Rightarrow> string \<Rightarrow> int \<Rightarrow> string list \<Rightarrow> (string \<times> string) list \<Rightarrow>
   (event list \<Rightarrow> invocation \<Rightarrow> js_error + 'r) \<Rightarrow> bool \<Rightarrow> event list \<Rightarrow>
   (js_error + 'r) \<times> event list" where
  "simCommand plat command timeout args env executingFunction logErrors tr =
     (let args' = command # args;
          env' = defaults (mapKeys env (\<lambda>value key. ''SIMCTL_CHILD_'' @ key)) (process_env plat);
          inv = \<lparr>exe = ''fbsimctl'', argv = args', opt_timeout = timeout, opt_env = env'\<rparr>;
          tr' = tr @ [Exec inv]
      in case executingFunction tr inv of
           Inr result \<Rightarrow> (Inr result, tr')
         | Inl e \<Rightarrow>
             if \<not> logErrors then (Inl e, tr')
             else if truthy (stderr e)
             then (errorAndThrow_message
                     (''simctl error running '' @ [CHR 0x27] @ command @ [CHR 0x27] @ '': '' @
                      trim (the (stderr e))), tr')
             else (errorAndThrow e, tr'))"

text \<open>
  \<^verbatim>\<open>simExec\<close>, lines 33 to 37. Line 34 reads
  \<^verbatim>\<open>return await simCommand(command, timeout, args, env async (c, a, o,b) => {\<close>: the
  comma between \<^verbatim>\<open>env\<close> and \<^verbatim>\<open>async\<close> is missing, so the file as it stands is
  refused by the parser and defines nothing. The function is read here with that comma,
  the least change under which it is a function at all. The executing function that it
  hands to \<^verbatim>\<open>simCommand\<close> then has the parameters \<^verbatim>\<open>c\<close>, \<^verbatim>\<open>a\<close>, \<^verbatim>\<open>o\<close> and
  \<^verbatim>\<open>b\<close>, and its body is \<^verbatim>\<open>return await exec(c, a, ob)\<close>. No scope of the file
  binds \<^verbatim>\<open>ob\<close> there (the \<^verbatim>\<open>ob\<close> of \<^verbatim>\<open>simSubProcess\<close> is the parameter of
  another function), so the evaluation of the arguments throws a \<open>ReferenceError\<close>
  before \<^verbatim>\<open>exec\<close> is called, at every call: the tool never runs.
\<close>

definition ob :: "invocation option" where
  "ob = None"

definition simExec ::
  "platform \<Rightarrow> string \<Rightarrow> int \<Rightarrow> string list \<Rightarrow> (string \<times> string) list \<Rightarrow> bool \<Rightarrow>
   event list \<Rightarrow> (js_error + exec_result) \<times> event list" where
  "simExec plat command timeout args env logErrors tr =
     simCommand plat command timeout args env
       (\<lambda>tr' inv. case ob of
                     None \<Rightarrow> Inl (ReferenceError ''ob is not defined'')
                   | Some opts \<Rightarrow>
                       exec plat tr' (inv\<lparr>opt_timeout := opt_timeout opts, opt_env := opt_env opts\<rparr>))
       logErrors tr"

section \<open>getDevices: the listing with \<^verbatim>\<open>|\<close> between the fields\<close>

text \<open>
  A device as the parsers build it. A property that the object does not have, or whose
  value is the undefined value, is \<open>None\<close>: \<^verbatim>\<open>getDevices\<close> sets no \<open>sdk\<close>.
\<close>

record device =
  name :: "string option"
  udid :: "string option"
  state :: "string option"
  sdk :: "string option"

text \<open>
  The loop over the lines, lines 192 to 201, \<open>devices\<close> being the own properties of the
  object \<^verbatim>\<open>devices\<close> in the order of their creation.
  \<^verbatim>\<open>devices[sdk] = devices[sdk] || []\<close> keeps the array that is there, stores a new one
  when the key reads as undefined, and stores the inherited member when the key is one of
  \<open>Object.prototype\<close>; the \<^verbatim>\<open>push\<close> that follows then throws a \<open>TypeError\<close>.
\<close>

definition itemSegments :: "string \<Rightarrow> string list" where
  "itemSegments item = map trim (split_on CHR ''|'' item)"

fun getDevices_items ::
  "(string \<times> device list) list \<Rightarrow> string list \<Rightarrow> js_error + (string \<times> device list) list" where
  "getDevices_items devices [] = Inr devices"
| "getDevices_items devices (item # items) =
     (let sdk = property_key (nth_opt (itemSegments item) 4);
          pushed = \<lparr>name = nth_opt (itemSegments item) 1, udid = nth_opt (itemSegments item) 0,
                    state = nth_opt (itemSegments item) 2, sdk = None\<rparr>
      in case map_of devices sdk of
           Some list \<Rightarrow> getDevices_items (AList.update sdk (list @ [pushed]) devices) items
         | None \<Rightarrow>
             if sdk \<in> set object_prototype_keys
             then Inl (TypeError ''devices[sdk].push is not a function'')
             else getDevices_items (AList.update sdk [pushed] devices) items)"

text \<open>
  What \<^verbatim>\<open>getDevices\<close> returns: the whole object, the array of one SDK, or, for a
  filter that names a member of \<open>Object.prototype\<close>, that member. A filter is
  \<open>None\<close> when the caller leaves it out (\<^verbatim>\<open>null\<close>). What
  \<^verbatim>\<open>console.log\<close> prints is not modelled.
\<close>

datatype getDevices_result =
    All_devices "(string \<times> device list) list"
  | Devices_of_sdk "device list"
  | Prototype_member string

text \<open>The filter, lines 203 to 213.\<close>

definition getDevices_forSdk ::
  "(string \<times> device list) list \<Rightarrow> string option \<Rightarrow> js_error + getDevices_result" where
  "getDevices_forSdk devices forSdk =
     (if truthy forSdk then
        (case map_of devices (the forSdk) of
           Some list \<Rightarrow> Inr (Devices_of_sdk list)
         | None \<Rightarrow>
             if the forSdk \<in> set object_prototype_keys
             then Inr (Prototype_member (the forSdk))
             else Inl (new_Error (''Sdk '' @ [CHR 0x27] @ the forSdk @ [CHR 0x27] @
                         '' was not in list of simctl sdks'')))
      else Inr (All_devices devices))"

text \<open>
  What \<^verbatim>\<open>getDevices\<close> does with the \<^verbatim>\<open>stdout\<close> of the value of
  \<^verbatim>\<open>await simExec('list', 0)\<close>, lines 190 to 213: the parser of the listing.
\<close>

definition getDevices_parse :: "string option \<Rightarrow> string option \<Rightarrow> js_error + getDevices_result" where
  "getDevices_parse printed forSdk =
     (case printed of
        None \<Rightarrow> Inl (TypeError ''Cannot read property split of undefined'')
      | Some text \<Rightarrow>
          (case getDevices_items [] (split_on CHR ''\<newline>'' text) of
             Inl e \<Rightarrow> Inl e
           | Inr devices \<Rightarrow> getDevices_forSdk devices forSdk))"

definition getDevices ::
  "platform \<Rightarrow> string option \<Rightarrow> event list \<Rightarrow> (js_error + getDevices_result) \<times> event list" where
  "getDevices plat forSdk tr =
     (case simExec plat ''list'' 0 [] [] True tr of
        (Inl e, tr') \<Rightarrow> (Inl e, tr')
      | (Inr out, tr') \<Rightarrow> (getDevices_parse (stdout out) forSdk, tr'))"

section \<open>createDevice\<close>

text \<open>
  The handler of \<^verbatim>\<open>createDevice\<close>. The constructor \<^verbatim>\<open>Error\<close> takes its message
  from its first argument, so the error of the second branch has the message
  \<^verbatim>\<open>Error creating device type: <deviceTypeId> - Exception: \<close>.
\<close>

definition createDevice_catch :: "string \<Rightarrow> js_error \<Rightarrow> js_error + 'a" where
  "createDevice_catch deviceTypeId e =
     (if truthy (stderr e)
      then errorAndThrow_message (''Could not create simulator. Reason: '' @ trim (the (stderr e)))
      else errorAndThrow
             (new_Error (''Error creating device type: '' @ deviceTypeId @ '' - Exception: '')))"

text \<open>
  Lines 88 and 89: the value that the local variable \<^verbatim>\<open>udid\<close> takes from the value
  \<open>out\<close> of the awaited call. \<^verbatim>\<open>_.last\<close> and the index 0 are applied to the result
  of a \<^verbatim>\<open>split\<close>, which is never empty. An \<^verbatim>\<open>out.stdout\<close> that is undefined
  makes \<^verbatim>\<open>trim\<close> throw a \<open>TypeError\<close>; nothing else throws, whatever the text.
\<close>

definition createDevice_parse :: "exec_result \<Rightarrow> js_error + string" where
  "createDevice_parse out =
     (case stdout out of
        None \<Rightarrow> Inl (TypeError ''Cannot read property trim of undefined'')
      | Some text \<Rightarrow>
          (let finalLine =
                 replace_first ''Create Ended: '' [] (last (split_on CHR ''\<newline>'' (trim text)));
               udid' = trim (hd (split_on CHR ''|'' finalLine))
           in Inr udid'))"

text \<open>
  \<^verbatim>\<open>createDevice\<close>, lines 83 to 100. The brace that closes the function is missing
  (the one of line 100 closes the \<^verbatim>\<open>catch\<close> block); the function is read as ending
  there. It has no \<^verbatim>\<open>return\<close>: when the body ends without an error, the caller
  receives the undefined value (\<open>Inr ()\<close>), not the udid. The parameter
  \<^verbatim>\<open>timeout\<close> is not used.
\<close>

definition createDevice ::
  "platform \<Rightarrow> string \<Rightarrow> string \<Rightarrow> event list \<Rightarrow> (js_error + unit) \<times> event list" where
  "createDevice plat deviceTypeId runtimeId tr =
     (case simExec plat ''create'' 0 [deviceTypeId, runtimeId] [] True tr of
        (Inl e, tr') \<Rightarrow> (createDevice_catch deviceTypeId e, tr')
      | (Inr out, tr') \<Rightarrow>
          (case createDevice_parse out of
             Inl e \<Rightarrow> (createDevice_catch deviceTypeId e, tr')
           | Inr udid' \<Rightarrow> (Inr (), tr')))"

section \<open>eraseDevice and the retry primitive\<close>

text \<open>
  \<^verbatim>\<open>retryInterval(times, sleepMs, fn)\<close> of \<^verbatim>\<open>asyncbox\<close>, the retry primitive of
  the spec: it runs \<open>fn\<close> until it succeeds, at most \<open>times\<close> times (\<open>times'\<close> below), sleeps
  \<open>sleepMs\<close> after a failure that is not the last one, and throws the last failure. With
  no attempt at all it returns \<^verbatim>\<open>null\<close> (\<open>None\<close>). \<open>tries\<close> counts the attempts
  made so far.
\<close>

function retryInterval_from ::
  "int \<Rightarrow> int \<Rightarrow> int \<Rightarrow> (event list \<Rightarrow> (js_error + 'a) \<times> event list) \<Rightarrow> event list \<Rightarrow>
   (js_error + 'a option) \<times> event list" where
  "retryInterval_from times' sleepMs tries fn tr =
     (if tries < times' then
        (case fn tr of
           (Inr res, tr') \<Rightarrow> (Inr (Some res), tr')
         | (Inl e, tr') \<Rightarrow>
             (let tr'' = (if tries + 1 \<noteq> times' then tr' @ [Sleep sleepMs] else tr')
              in if tries + 1 \<ge> times' then (Inl e, tr'')
                 else retryInterval_from times' sleepMs (tries + 1) fn tr''))
      else (Inr None, tr))"
  by pat_completeness auto
termination
  by (relation "measure (\<lambda>(times', sleepMs, tries, fn, tr). nat (times' - tries))") auto

declare retryInterval_from.simps [simp del]

definition retryInterval ::
  "int \<Rightarrow> int \<Rightarrow> (event list \<Rightarrow> (js_error + 'a) \<times> event list) \<Rightarrow> event list \<Rightarrow>
   (js_error + 'a option) \<times> event list" where
  "retryInterval times' sleepMs fn tr = retryInterval_from times' sleepMs 0 fn tr"

text \<open>
  \<^verbatim>\<open>parseInt(a / b, 10)\<close> for integers \<open>a\<close> and \<open>b\<close>: the quotient is computed as a
  double, printed, and the digits before the first other character are read back. For a
  safe integer \<open>a\<close> (at most \<open>2\<^sup>5\<^sup>3 - 1\<close> in absolute value) and \<open>0 < b \<le> 10\<^sup>6\<close> the
  double is the exact quotient when that is an integer and lies strictly between the same
  two integers otherwise, and it prints without an exponent: the result is the quotient
  truncated toward zero. Outside that range the double can be rounded across an integer or
  print in exponent form (from \<open>10\<^sup>2\<^sup>1\<close> on, and below \<open>10\<^sup>-\<^sup>6\<close>), of which
  \<^verbatim>\<open>parseInt\<close> reads the leading digits only; the model gives no value there
  (\<open>None\<close>).
\<close>

definition parseInt_quotient :: "int \<Rightarrow> int \<Rightarrow> int option" where
  "parseInt_quotient a b =
     (if \<bar>a\<bar> \<le> 9007199254740991 \<and> 0 < b \<and> b \<le> 1000000
      then Some (if a < 0 then - ((- a) div b) else a div b)
      else None)"

text \<open>
  \<^verbatim>\<open>eraseDevice\<close>, for an integer \<open>timeout\<close>; the parameter is \<open>None\<close> when the
  caller leaves it out (default 1000). The result is \<open>None\<close> for a timeout outside the
  range of \<open>parseInt_quotient\<close>.
\<close>

definition eraseDevice ::
  "platform \<Rightarrow> string \<Rightarrow> int option \<Rightarrow> event list \<Rightarrow> ((js_error + unit) \<times> event list) option" where
  "eraseDevice plat udid' timeout tr =
     (let timeout = (case timeout of None \<Rightarrow> 1000 | Some t \<Rightarrow> t);
          loopFn = (\<lambda>tr. case simExec plat ''erase'' 10000 [udid'] [] True tr of
                            (Inl e, tr') \<Rightarrow> (Inl e, tr')
                          | (Inr out, tr') \<Rightarrow> (Inr (), tr'))
      in case parseInt_quotient timeout 200 of
           None \<Rightarrow> None
         | Some retries \<Rightarrow>
             Some (case retryInterval retries 200 loopFn tr of
                     (Inl e, tr') \<Rightarrow> (Inl e, tr')
                   | (Inr res, tr') \<Rightarrow> (Inr (), tr')))"

text \<open>\<open>k\<close> attempts with a sleep between two attempts.\<close>

fun attempts :: "nat \<Rightarrow> event \<Rightarrow> event \<Rightarrow> event list" where
  "attempts 0 a s = []"
| "attempts (Suc 0) a s = [a]"
| "attempts (Suc (Suc k)) a s = a # s # attempts (Suc k) a s"

section \<open>getRuntimeID\<close>

record runtime =
  runtime_name :: string
  runtime_identifier :: string

text \<open>
  The loop variable is \<^verbatim>\<open>runtime\<close>; the body reads \<^verbatim>\<open>item\<close>, which no scope
  of the file binds where \<^verbatim>\<open>getRuntimeID\<close> stands (the \<^verbatim>\<open>item\<close> of
  \<^verbatim>\<open>getDevices\<close> is local to its own loop). Reading it throws a
  \<open>ReferenceError\<close>.
\<close>

definition item :: "runtime option" where
  "item = None"

fun getRuntimeID_loop :: "string option \<Rightarrow> runtime list \<Rightarrow> js_error + string option" where
  "getRuntimeID_loop rant [] = Inr rant"
| "getRuntimeID_loop rant (runtime # runtimes) =
     (case item of
        None \<Rightarrow> Inl (ReferenceError ''item is not defined'')
      | Some it \<Rightarrow>
          getRuntimeID_loop
            (if sublist ''iOS 10.2'' (runtime_name it) then Some (runtime_identifier it) else rant)
            runtimes)"

text \<open>
  What \<^verbatim>\<open>getRuntimeID\<close> does with the \<^verbatim>\<open>stdout\<close> of the value of
  \<^verbatim>\<open>await simExec('list', 0, ['-j'])\<close>, lines 177 to 183: the scan of the runtimes.
  \<open>JSON_parse_runtimes\<close> stands for \<^verbatim>\<open>JSON.parse(stdout).runtimes\<close>. The body never
  reads \<^verbatim>\<open>sdkName\<close>.
\<close>

definition getRuntimeID_scan ::
  "(string option \<Rightarrow> js_error + runtime list) \<Rightarrow> string \<Rightarrow> string option \<Rightarrow> js_error + string option" where
  "getRuntimeID_scan JSON_parse_runtimes sdkName printed =
     (case JSON_parse_runtimes printed of
        Inl e \<Rightarrow> Inl e
      | Inr runtimes \<Rightarrow> getRuntimeID_loop None runtimes)"

definition getRuntimeID ::
  "platform \<Rightarrow> (string option \<Rightarrow> js_error + runtime list) \<Rightarrow> string \<Rightarrow> event list \<Rightarrow>
   (js_error + string option) \<times> event list" where
  "getRuntimeID plat JSON_parse_runtimes sdkName tr =
     (case simExec plat ''list'' 0 [''-j''] [] True tr of
        (Inl e, tr') \<Rightarrow> (Inl e, tr')
      | (Inr out, tr') \<Rightarrow> (getRuntimeID_scan JSON_parse_runtimes sdkName (stdout out), tr'))"

section \<open>getScreenshot\<close>

text \<open>
  Lines 222 to 224, what \<^verbatim>\<open>getScreenshot\<close> does once the awaited tool call has
  returned: the read, the removal of the path, the encoding. There is no
  \<^verbatim>\<open>try\<close> around any of the steps: a step that throws ends the function there.
\<close>

definition getScreenshot_read ::
  "platform \<Rightarrow> string \<Rightarrow> event list \<Rightarrow> (js_error + string) \<times> event list" where
  "getScreenshot_read plat pathToScreenshotPng tr2 =
     (let tr3 = tr2 @ [ReadFile pathToScreenshotPng]
      in case fs_readFile plat tr2 pathToScreenshotPng of
           Inl e \<Rightarrow> (Inl e, tr3)
         | Inr screenshotImg \<Rightarrow>
             (let tr4 = tr3 @ [Rimraf pathToScreenshotPng]
              in case fs_rimraf plat tr3 pathToScreenshotPng of
                   Inl e \<Rightarrow> (Inl e, tr4)
                 | Inr u \<Rightarrow> (Inr (toString_base64 plat screenshotImg), tr4)))"

definition getScreenshot ::
  "platform \<Rightarrow> string \<Rightarrow> event list \<Rightarrow> (js_error + string) \<times> event list" where
  "getScreenshot plat udid' tr =
     (let tr1 = tr @ [TempDirPath (''screenshot-'' @ udid') ''.png'']
      in case tempDir_path plat tr (''screenshot-'' @ udid') ''.png'' of
           Inl e \<Rightarrow> (Inl e, tr1)
         | Inr pathToScreenshotPng \<Rightarrow>
             (case simExec plat ''io'' 0 [udid', ''screenshot'', pathToScreenshotPng] [] True tr1 of
                (Inl e, tr2) \<Rightarrow> (Inl e, tr2)
              | (Inr out, tr2) \<Rightarrow> getScreenshot_read plat pathToScreenshotPng tr2))"

section \<open>Regular expressions\<close>

text \<open>
  The part of ECMAScript regular expressions that the two patterns of
  \<^verbatim>\<open>getDevicesByParsing\<close> use: literal text, the classes \<^verbatim>\<open>.\<close>, \<^verbatim>\<open>\s\<close>,
  \<^verbatim>\<open>[^\s]\<close> and \<^verbatim>\<open>\w\<close>, sequence, the greedy quantifiers \<^verbatim>\<open>*\<close>,
  \<^verbatim>\<open>+\<close> and \<^verbatim>\<open>?\<close>, and capturing groups.
\<close>

datatype char_class = Any_char | White_space | Not_white_space | Word_char

definition in_class :: "char_class \<Rightarrow> char \<Rightarrow> bool" where
  "in_class k c =
     (case k of
        Any_char \<Rightarrow> \<not> is_line_terminator c
      | White_space \<Rightarrow> is_white_space c
      | Not_white_space \<Rightarrow> \<not> is_white_space c
      | Word_char \<Rightarrow> is_word_char c)"

datatype regex =
    Lit string
  | Cls char_class
  | Seq regex regex
  | Star regex
  | Opt regex
  | Group nat regex

definition Plus :: "regex \<Rightarrow> regex" where
  "Plus r = Seq r (Star r)"

fun seqs :: "regex list \<Rightarrow> regex" where
  "seqs [] = Lit []"
| "seqs [r] = r"
| "seqs (r # rs) = Seq r (seqs rs)"

text \<open>
  The backtracking matcher: \<open>matches_at r s c\<close> lists, in the order in which backtracking tries
  them, the ways in which \<open>r\<close> matches at the start of \<open>s\<close>, each as the text left after
  the match and the captures (starting from the captures \<open>c\<close>). The first element is the
  match that \<^verbatim>\<open>exec\<close> takes at this position. A greedy quantifier tries one more
  iteration before it tries to stop, and an iteration of \<^verbatim>\<open>*\<close> that matches the empty
  string is refused.
\<close>

function matches_at :: "regex \<Rightarrow> string \<Rightarrow> (nat \<Rightarrow> string option) \<Rightarrow> (string \<times> (nat \<Rightarrow> string option)) list" where
  "matches_at (Lit p) s c = (if prefix p s then [(drop (length p) s, c)] else [])"
| "matches_at (Cls k) s c = (case s of [] \<Rightarrow> [] | x # t \<Rightarrow> if in_class k x then [(t, c)] else [])"
| "matches_at (Seq a b) s c = concat (map (\<lambda>p. matches_at b (fst p) (snd p)) (matches_at a s c))"
| "matches_at (Star a) s c =
     concat (map (\<lambda>p. if length (fst p) < length s then matches_at (Star a) (fst p) (snd p) else [])
               (matches_at a s c)) @ [(s, c)]"
| "matches_at (Opt a) s c = matches_at a s c @ [(s, c)]"
| "matches_at (Group n a) s c =
     map (\<lambda>p. (fst p, (snd p)(n \<mapsto> take (length s - length (fst p)) s))) (matches_at a s c)"
  by pat_completeness auto
termination
  by (relation "inv_image (measure size <*lex*> measure length) (\<lambda>(r, s, c). (r, s))") auto

declare matches_at.simps(4) [simp del]

text \<open>
  \<^verbatim>\<open>re.exec(s)\<close>, \<open>s\<close> being the text from \<^verbatim>\<open>lastIndex\<close> on: the first position
  at which the pattern matches, with the text matched, the groups, and the text after the
  match (where the next \<^verbatim>\<open>exec\<close> of a global pattern starts); \<open>None\<close> is
  \<^verbatim>\<open>null\<close>.
\<close>

record regex_match =
  matched :: string
  groups :: "nat \<Rightarrow> string option"

fun regex_exec :: "regex \<Rightarrow> string \<Rightarrow> (regex_match \<times> string) option" where
  "regex_exec r [] =
     (case matches_at r [] (\<lambda>n. None) of
        [] \<Rightarrow> None
      | p # ps \<Rightarrow> Some (\<lparr>matched = [], groups = snd p\<rparr>, []))"
| "regex_exec r (x # xs) =
     (case matches_at r (x # xs) (\<lambda>n. None) of
        [] \<Rightarrow> regex_exec r xs
      | p # ps \<Rightarrow>
          Some (\<lparr>matched = take (length (x # xs) - length (fst p)) (x # xs), groups = snd p\<rparr>, fst p))"

text \<open>
  The loop \<^verbatim>\<open>while (match !== null) { matches.push(match); match = re.exec(stdout) }\<close>
  of a global pattern. A match that leaves \<^verbatim>\<open>lastIndex\<close> where it was is found again
  for ever: the result is then \<open>None\<close>.
\<close>

function exec_all :: "regex \<Rightarrow> string \<Rightarrow> regex_match list option" where
  "exec_all r s =
     (case regex_exec r s of
        None \<Rightarrow> Some []
      | Some (match, rest) \<Rightarrow>
          if length rest < length s then map_option ((#) match) (exec_all r rest) else None)"
  by pat_completeness auto
termination
  by (relation "measure (\<lambda>(r, s). length s)") auto

declare exec_all.simps [simp del]

section \<open>getDevicesByParsing: the listing in sections\<close>

text \<open>\<^verbatim>\<open>/-- iOS (.+) --(\n\s{4}.+)*/mg\<close> and
  \<^verbatim>\<open>/([^\s].+) \((\w+-.+\w+)\) \((\w+\s?\w+)\)/\<close>.\<close>

definition deviceSectionRe :: regex where
  "deviceSectionRe =
     seqs [Lit ''-- iOS '', Group 1 (Plus (Cls Any_char)), Lit '' --'',
           Star (Group 2 (seqs [Lit ''\<newline>'', Cls White_space, Cls White_space, Cls White_space,
                                Cls White_space, Plus (Cls Any_char)]))]"

definition lineRe :: regex where
  "lineRe =
     seqs [Group 1 (Seq (Cls Not_white_space) (Plus (Cls Any_char))),
           Lit '' ('',
           Group 2 (seqs [Plus (Cls Word_char), Lit ''-'', Plus (Cls Any_char), Plus (Cls Word_char)]),
           Lit '') ('',
           Group 3 (seqs [Plus (Cls Word_char), Opt (Cls White_space), Plus (Cls Word_char)]),
           Lit '')'']"

text \<open>
  The object \<^verbatim>\<open>devices\<close>: its own properties in the order of their creation, and the
  array that has become its prototype, if any. An assignment to a key that the object has
  replaces the value where it stands; an assignment to the key \<^verbatim>\<open>__proto__\<close> does not
  add a property: it makes the assigned array the prototype of the object, and reading that
  key yields the prototype.
\<close>

record devices_object =
  own :: "(string \<times> device list) list"
  prototype_array :: "device list option"

definition assign_empty :: "string \<Rightarrow> devices_object \<Rightarrow> devices_object" where
  "assign_empty key devices =
     (if key = ''__proto__'' then devices\<lparr>prototype_array := Some []\<rparr>
      else devices\<lparr>own := AList.update key [] (own devices)\<rparr>)"

definition push :: "string \<Rightarrow> device \<Rightarrow> devices_object \<Rightarrow> devices_object" where
  "push key d devices =
     (if key = ''__proto__''
      then devices\<lparr>prototype_array := map_option (\<lambda>arr. arr @ [d]) (prototype_array devices)\<rparr>
      else devices\<lparr>own := AList.map_entry key (\<lambda>arr. arr @ [d]) (own devices)\<rparr>)"

text \<open>The loop over the lines of one section, and the loop over the sections.\<close>

fun getDevicesByParsing_lines ::
  "string option \<Rightarrow> devices_object \<Rightarrow> string list \<Rightarrow> js_error + devices_object" where
  "getDevicesByParsing_lines sdk' devices [] = Inr devices"
| "getDevicesByParsing_lines sdk' devices (line # lines) =
     (case regex_exec lineRe line of
        None \<Rightarrow> Inl (new_Error (''Could not match line: '' @ line))
      | Some (lineMatch, rest) \<Rightarrow>
          getDevicesByParsing_lines sdk'
            (push (property_key sdk')
               \<lparr>name = groups lineMatch 1, udid = groups lineMatch 2, state = groups lineMatch 3,
                sdk = sdk'\<rparr>
               devices)
            lines)"

fun getDevicesByParsing_matches ::
  "devices_object \<Rightarrow> regex_match list \<Rightarrow> js_error + devices_object" where
  "getDevicesByParsing_matches devices [] = Inr devices"
| "getDevicesByParsing_matches devices (match # matches) =
     (let sdk = groups match 1
      in case getDevicesByParsing_lines sdk (assign_empty (property_key sdk) devices)
                (tl (split_on CHR ''\<newline>'' (matched match))) of
           Inl e \<Rightarrow> Inl e
         | Inr devices' \<Rightarrow> getDevicesByParsing_matches devices' matches)"

text \<open>
  What \<^verbatim>\<open>getDevicesByParsing\<close> does with the \<^verbatim>\<open>stdout\<close> of the value of
  \<^verbatim>\<open>await simExec('list', 0, ['devices'])\<close>, lines 129 to 171: the parser of the
  listing. \<^verbatim>\<open>exec\<close> reads an undefined \<^verbatim>\<open>stdout\<close> as the text
  \<^verbatim>\<open>undefined\<close>. The result is \<open>None\<close> when the loop over the matches does not end.
\<close>

definition getDevicesByParsing_parse :: "string option \<Rightarrow> (js_error + devices_object) option" where
  "getDevicesByParsing_parse printed =
     (case exec_all deviceSectionRe (case printed of None \<Rightarrow> ''undefined'' | Some s \<Rightarrow> s) of
        None \<Rightarrow> None
      | Some matches \<Rightarrow>
          if length matches < 1
          then Some (errorAndThrow_message ''Could not find device section'')
          else Some (getDevicesByParsing_matches \<lparr>own = [], prototype_array = None\<rparr> matches))"

definition getDevicesByParsing ::
  "platform \<Rightarrow> event list \<Rightarrow> ((js_error + devices_object) \<times> event list) option" where
  "getDevicesByParsing plat tr =
     (case simExec plat ''list'' 0 [''devices''] [] True tr of
        (Inl e, tr') \<Rightarrow> Some (Inl e, tr')
      | (Inr out, tr') \<Rightarrow> map_option (\<lambda>r. (r, tr')) (getDevicesByParsing_parse (stdout out)))"

section \<open>The listing in sections, as the spec describes it\<close>

text \<open>
  A section is its version and its devices, a device its name, udid and state: a header
  line \<^verbatim>\<open>-- iOS <version> --\<close> and one line \<^verbatim>\<open>    <name> (<udid>) (<state>)\<close> for
  every device. A version is a non-empty text on one line; a name has at least two
  characters, starts with one that is not white space and stays on one line; a udid is made
  of word characters and hyphens, starts with word characters followed by a hyphen, and
  ends with a word character after at least one more character; a state is one word of at
  least two characters, or two words with one white-space character (not a line
  terminator) between them.
\<close>

definition section_header :: "string \<Rightarrow> string" where
  "section_header v = ''-- iOS '' @ v @ '' --''"

definition device_line :: "string \<times> string \<times> string \<Rightarrow> string" where
  "device_line d = (case d of (n, u, st) \<Rightarrow> ''    '' @ n @ '' ('' @ u @ '') ('' @ st @ '')'')"

definition section_text :: "string \<times> (string \<times> string \<times> string) list \<Rightarrow> string" where
  "section_text sec =
     (case sec of (v, ds) \<Rightarrow> section_header v @ concat (map (\<lambda>d. CHR ''\<newline>'' # device_line d) ds))"







text \<open>
  A listing is a preamble and then parts, a part being a section and the text that follows
  it up to the next section or to the end of the listing (the line break, and any lines
  that are not of a section). In the preamble and in the text after a section the text
  \<^verbatim>\<open>-- iOS \<close> starts nowhere, also not with a header behind it (\<open>no_header\<close>); the
  text after a section starts with a line terminator and not with a line that the pattern
  reads as a device line of the section, a line break and four white-space characters
  before one more character of the line (\<open>starts_device_line\<close>); after the last
  section it may be empty.
\<close>

definition listing :: "string \<Rightarrow> ((string \<times> (string \<times> string \<times> string) list) \<times> string) list \<Rightarrow> string" where
  "listing pre parts = pre @ concat (map (\<lambda>part. section_text (fst part) @ snd part) parts)"







section \<open>Definitions used in the proofs about the two patterns\<close>



definition section_line :: regex where
  "section_line =
     Group 2 (seqs [Lit ''\<newline>'', Cls White_space, Cls White_space, Cls White_space,
                    Cls White_space, Plus (Cls Any_char)])"


section \<open>Platforms for the examples\<close>

text \<open>
  A platform with an empty environment whose \<^verbatim>\<open>exec\<close> and whose \<^verbatim>\<open>fs.readFile\<close>
  always have the given outcomes, and the one whose \<^verbatim>\<open>exec\<close> prints the given text.
\<close>

definition platform_with :: "js_error + exec_result \<Rightarrow> js_error + string \<Rightarrow> platform" where
  "platform_with run_outcome read_outcome =
     \<lparr>process_env = [], exec = (\<lambda>tr inv. run_outcome),
      tempDir_path = (\<lambda>tr pre suf. Inr (''/tmp/'' @ pre @ suf)),
      fs_readFile = (\<lambda>tr path. read_outcome), fs_rimraf = (\<lambda>tr path. Inr ()),
      toString_base64 = (\<lambda>bytes. bytes)\<rparr>"

definition platform_printing :: "string \<Rightarrow> platform" where
  "platform_printing text = platform_with (Inr \<lparr>stdout = Some text\<rparr>) (Inr ''PNG'')"

section \<open>Properties of simCommand and simExec\<close>

text \<open>
  \<^verbatim>\<open>simExec\<close> throws at every call, whatever the platform: the executing function
  fails on \<^verbatim>\<open>ob\<close>, the error has no \<^verbatim>\<open>stderr\<close>, and \<^verbatim>\<open>simCommand\<close> throws
  it again.
\<close>

lemma simExec_throws:
  "simExec plat command timeout args env logErrors tr =
     (Inl (ReferenceError ''ob is not defined''),
      tr @ [Exec \<lparr>exe = ''fbsimctl'', argv = command # args, opt_timeout = timeout,
              opt_env = defaults (mapKeys env (\<lambda>value key. ''SIMCTL_CHILD_'' @ key)) (process_env plat)\<rparr>])"
  by (simp add: simExec_def simCommand_def ob_def ReferenceError_def truthy_def errorAndThrow_def Let_def)

lemma defaults_Nil: "defaults (mapKeys [] f) penv = penv"
  by (simp add: defaults_def mapKeys_def)

text \<open>
  C9. When the executing function fails with the error \<open>e\<close>, \<^verbatim>\<open>simCommand\<close>
  throws: \<open>e\<close> itself when \<open>logErrors\<close> is false; when \<open>logErrors\<close> is true and
  \<open>e\<close> carries standard-error text, a new error whose message is
  \<^verbatim>\<open>simctl error running '<command>': \<close> followed by the trimmed standard-error; and
  \<open>e\<close> itself when \<open>logErrors\<close> is true and \<open>e\<close> carries no such text. In every
  case the result is an error.
\<close>

theorem simCommand_failure:
  assumes "executingFunction tr
             \<lparr>exe = ''fbsimctl'', argv = command # args, opt_timeout = timeout,
              opt_env = defaults (mapKeys env (\<lambda>value key. ''SIMCTL_CHILD_'' @ key)) (process_env plat)\<rparr>
           = Inl e"
  shows "fst (simCommand plat command timeout args env executingFunction logErrors tr) =
           Inl (if \<not> logErrors then e
                else if truthy (stderr e)
                then new_Error (''simctl error running '' @ [CHR 0x27] @ command @ [CHR 0x27] @ '': '' @
                                trim (the (stderr e)))
                else e)"
  using assms by (simp add: simCommand_def errorAndThrow_def errorAndThrow_message_def)

theorem simCommand_failure_witness:
  "fst (simCommand (platform_with (Inl \<lparr>kind = ''Error'', message = ''exit 1'', stderr = Some '' no such device \<newline>''\<rparr>) (Inr ''PNG''))
          ''erase'' 0 [''A1B2''] []
          (exec (platform_with (Inl \<lparr>kind = ''Error'', message = ''exit 1'', stderr = Some '' no such device \<newline>''\<rparr>) (Inr ''PNG'')))
          True []) =
     Inl (new_Error ''simctl error running 'erase': no such device'') \<and>
   fst (simCommand (platform_with (Inl \<lparr>kind = ''Error'', message = ''exit 1'', stderr = Some '' no such device \<newline>''\<rparr>) (Inr ''PNG''))
          ''erase'' 0 [''A1B2''] []
          (exec (platform_with (Inl \<lparr>kind = ''Error'', message = ''exit 1'', stderr = Some '' no such device \<newline>''\<rparr>) (Inr ''PNG'')))
          False []) =
     Inl \<lparr>kind = ''Error'', message = ''exit 1'', stderr = Some '' no such device \<newline>''\<rparr> \<and>
   fst (simCommand (platform_with (Inl \<lparr>kind = ''Error'', message = ''spawn ENOENT'', stderr = None\<rparr>) (Inr ''PNG''))
          ''erase'' 0 [''A1B2''] []
          (exec (platform_with (Inl \<lparr>kind = ''Error'', message = ''spawn ENOENT'', stderr = None\<rparr>) (Inr ''PNG'')))
          True []) =
     Inl \<lparr>kind = ''Error'', message = ''spawn ENOENT'', stderr = None\<rparr>"
  using simCommand_failure[of "exec (platform_with (Inl \<lparr>kind = ''Error'', message = ''exit 1'', stderr = Some '' no such device \<newline>''\<rparr>) (Inr ''PNG''))"
          "[]" "''erase''" "[''A1B2'']" 0 "[]"
          "platform_with (Inl \<lparr>kind = ''Error'', message = ''exit 1'', stderr = Some '' no such device \<newline>''\<rparr>) (Inr ''PNG'')"
          "\<lparr>kind = ''Error'', message = ''exit 1'', stderr = Some '' no such device \<newline>''\<rparr>" True]
        simCommand_failure[of "exec (platform_with (Inl \<lparr>kind = ''Error'', message = ''exit 1'', stderr = Some '' no such device \<newline>''\<rparr>) (Inr ''PNG''))"
          "[]" "''erase''" "[''A1B2'']" 0 "[]"
          "platform_with (Inl \<lparr>kind = ''Error'', message = ''exit 1'', stderr = Some '' no such device \<newline>''\<rparr>) (Inr ''PNG'')"
          "\<lparr>kind = ''Error'', message = ''exit 1'', stderr = Some '' no such device \<newline>''\<rparr>" False]
        simCommand_failure[of "exec (platform_with (Inl \<lparr>kind = ''Error'', message = ''spawn ENOENT'', stderr = None\<rparr>) (Inr ''PNG''))"
          "[]" "''erase''" "[''A1B2'']" 0 "[]"
          "platform_with (Inl \<lparr>kind = ''Error'', message = ''spawn ENOENT'', stderr = None\<rparr>) (Inr ''PNG'')"
          "\<lparr>kind = ''Error'', message = ''spawn ENOENT'', stderr = None\<rparr>" True]
  by (simp add: platform_with_def truthy_def new_Error_def trim_def is_white_space_def)







section \<open>Properties of getDevices\<close>

text \<open>
  When no line names a member of \<open>Object.prototype\<close> in its fifth field, the loop
  returns, and the list of a key holds the records of the lines with that key, in the order
  of the lines, after what the list held before.
\<close>

lemma getDevices_items_total:
  assumes "\<forall>item \<in> set items. property_key (nth_opt (itemSegments item) 4) \<notin> set object_prototype_keys"
  shows "\<exists>devices'. getDevices_items devices items = Inr devices' \<and>
           (\<forall>k. map_of devices' k =
              (let new = map (\<lambda>item. \<lparr>name = nth_opt (itemSegments item) 1, udid = nth_opt (itemSegments item) 0,
                    state = nth_opt (itemSegments item) 2, sdk = None\<rparr>)
                         (filter (\<lambda>item. property_key (nth_opt (itemSegments item) 4) = k) items)
               in case map_of devices k of
                    Some list \<Rightarrow> Some (list @ new)
                  | None \<Rightarrow> if new = [] then None else Some new))"
  using assms
proof (induction items arbitrary: devices)
  case Nil
  then show ?case by (auto split: option.splits)
next
  case (Cons item items)
  let ?sdk = "property_key (nth_opt (itemSegments item) 4)"
  let ?d = "\<lparr>name = nth_opt (itemSegments item) 1, udid = nth_opt (itemSegments item) 0,
                    state = nth_opt (itemSegments item) 2, sdk = None\<rparr>"
  from Cons.prems have rest: "\<forall>item \<in> set items. property_key (nth_opt (itemSegments item) 4) \<notin> set object_prototype_keys"
    and here: "?sdk \<notin> set object_prototype_keys" by auto
  show ?case
  proof (cases "map_of devices ?sdk")
    case None
    from Cons.IH[OF rest, of "AList.update ?sdk [?d] devices"]
    obtain devices' where d: "getDevices_items (AList.update ?sdk [?d] devices) items = Inr devices'"
      and m: "\<And>k. map_of devices' k =
              (let new = map (\<lambda>item. \<lparr>name = nth_opt (itemSegments item) 1, udid = nth_opt (itemSegments item) 0,
                    state = nth_opt (itemSegments item) 2, sdk = None\<rparr>)
                         (filter (\<lambda>item. property_key (nth_opt (itemSegments item) 4) = k) items)
               in case map_of (AList.update ?sdk [?d] devices) k of
                    Some list \<Rightarrow> Some (list @ new)
                  | None \<Rightarrow> if new = [] then None else Some new)" by blast
    have "getDevices_items devices (item # items) = Inr devices'"
      using None here d by (simp add: Let_def)
    moreover have "\<forall>k. map_of devices' k =
              (let new = map (\<lambda>item. \<lparr>name = nth_opt (itemSegments item) 1, udid = nth_opt (itemSegments item) 0,
                    state = nth_opt (itemSegments item) 2, sdk = None\<rparr>)
                         (filter (\<lambda>item. property_key (nth_opt (itemSegments item) 4) = k) (item # items))
               in case map_of devices k of
                    Some list \<Rightarrow> Some (list @ new)
                  | None \<Rightarrow> if new = [] then None else Some new)"
      using None by (auto simp: m update_conv' Let_def split: option.splits)
    ultimately show ?thesis by blast
  next
    case (Some list)
    from Cons.IH[OF rest, of "AList.update ?sdk (list @ [?d]) devices"]
    obtain devices' where d: "getDevices_items (AList.update ?sdk (list @ [?d]) devices) items = Inr devices'"
      and m: "\<And>k. map_of devices' k =
              (let new = map (\<lambda>item. \<lparr>name = nth_opt (itemSegments item) 1, udid = nth_opt (itemSegments item) 0,
                    state = nth_opt (itemSegments item) 2, sdk = None\<rparr>)
                         (filter (\<lambda>item. property_key (nth_opt (itemSegments item) 4) = k) items)
               in case map_of (AList.update ?sdk (list @ [?d]) devices) k of
                    Some list \<Rightarrow> Some (list @ new)
                  | None \<Rightarrow> if new = [] then None else Some new)" by blast
    have "getDevices_items devices (item # items) = Inr devices'"
      using Some d by (simp add: Let_def)
    moreover have "\<forall>k. map_of devices' k =
              (let new = map (\<lambda>item. \<lparr>name = nth_opt (itemSegments item) 1, udid = nth_opt (itemSegments item) 0,
                    state = nth_opt (itemSegments item) 2, sdk = None\<rparr>)
                         (filter (\<lambda>item. property_key (nth_opt (itemSegments item) 4) = k) (item # items))
               in case map_of devices k of
                    Some list \<Rightarrow> Some (list @ new)
                  | None \<Rightarrow> if new = [] then None else Some new)"
      using Some by (auto simp: m update_conv' Let_def split: option.splits)
    ultimately show ?thesis by blast
  qed
qed

text \<open>
  The parser on a listing in which no line names a member of \<open>Object.prototype\<close> in
  its fifth field: every line has its record, with the trimmed segments 0, 1 and 2 as udid,
  name and state, in the list of the key read from the trimmed segment 4.
\<close>

lemma getDevices_parse_fields:
  assumes "\<forall>item \<in> set (split_on CHR ''\<newline>'' text).
             property_key (nth_opt (itemSegments item) 4) \<notin> set object_prototype_keys"
  shows "\<exists>devices. getDevices_parse (Some text) None = Inr (All_devices devices) \<and>
            (\<forall>item \<in> set (split_on CHR ''\<newline>'' text).
               \<exists>list. map_of devices (property_key (nth_opt (itemSegments item) 4)) = Some list \<and>
                 \<lparr>name = nth_opt (itemSegments item) 1, udid = nth_opt (itemSegments item) 0,
                  state = nth_opt (itemSegments item) 2, sdk = None\<rparr> \<in> set list)"
proof -
  let ?items = "split_on CHR ''\<newline>'' text"
  from getDevices_items_total[OF assms, of "[]"]
  obtain devices where d: "getDevices_items [] ?items = Inr devices"
    and m: "\<And>k. map_of devices k =
              (let new = map (\<lambda>item. \<lparr>name = nth_opt (itemSegments item) 1, udid = nth_opt (itemSegments item) 0,
                    state = nth_opt (itemSegments item) 2, sdk = None\<rparr>)
                         (filter (\<lambda>item. property_key (nth_opt (itemSegments item) 4) = k) ?items)
               in if new = [] then None else Some new)"
    by auto
  have "getDevices_parse (Some text) None = Inr (All_devices devices)"
    using d by (simp add: getDevices_parse_def getDevices_forSdk_def truthy_def)
  moreover have "\<forall>item \<in> set ?items.
               \<exists>list. map_of devices (property_key (nth_opt (itemSegments item) 4)) = Some list \<and>
                 \<lparr>name = nth_opt (itemSegments item) 1, udid = nth_opt (itemSegments item) 0,
                  state = nth_opt (itemSegments item) 2, sdk = None\<rparr> \<in> set list"
    by (auto simp: m Let_def filter_empty_conv)
  ultimately show ?thesis by blast
qed

text \<open>The parser on two lines with white space around the fields.\<close>

lemma getDevices_parse_example:
  "getDevices_parse (Some '' A1B2 | iPhone 11|Booted | x |  iOS 14.4 \<newline>C3D4|iPad Air|Shutdown|y|iOS 14.4'') None =
     Inr (All_devices [(''iOS 14.4'',
        [\<lparr>name = Some ''iPhone 11'', udid = Some ''A1B2'', state = Some ''Booted'', sdk = None\<rparr>,
         \<lparr>name = Some ''iPad Air'', udid = Some ''C3D4'', state = Some ''Shutdown'', sdk = None\<rparr>])])"
  by (simp add: getDevices_parse_def getDevices_forSdk_def truthy_def itemSegments_def trim_def
      is_white_space_def nth_opt_def property_key_def object_prototype_keys_def)

text \<open>
  C7. No line is filed by \<^verbatim>\<open>getDevices\<close>: its first statement awaits
  \<^verbatim>\<open>simExec('list', 0)\<close>, which throws \<^verbatim>\<open>ReferenceError: ob is not defined\<close>
  before the tool runs, so whatever the tool would print, also the line
  \<^verbatim>\<open>A1B2|iPhone 11|Booted|x|iOS 14.4\<close>, and whatever the filter, the call fails with
  that error. And the parser itself, given the listing, does not file every line under the
  key read from its trimmed field 4: for the line
  \<^verbatim>\<open>A1B2 | iPhone 11 | Booted | x | constructor \<close> it throws a \<open>TypeError\<close>.
\<close>

theorem getDevices_files_no_record:
  "getDevices plat forSdk tr =
     (Inl (ReferenceError ''ob is not defined''),
      tr @ [Exec \<lparr>exe = ''fbsimctl'', argv = [''list''], opt_timeout = 0, opt_env = process_env plat\<rparr>]) \<and>
   getDevices_parse (Some ''A1B2 | iPhone 11 | Booted | x | constructor '') None =
     Inl (TypeError ''devices[sdk].push is not a function'')"
  by (simp add: getDevices_def simExec_throws defaults_Nil getDevices_parse_def getDevices_forSdk_def
      truthy_def itemSegments_def trim_def is_white_space_def nth_opt_def property_key_def
      object_prototype_keys_def)




text \<open>
  C10. The line \<^verbatim>\<open>A1B2|iPhone 11|Booted|x|toString\<close> makes the parser of
  \<^verbatim>\<open>getDevices\<close> throw a \<open>TypeError\<close>: \<^verbatim>\<open>devices['toString']\<close> reads the
  function inherited from \<open>Object.prototype\<close>, which is truthy, so no array is stored
  and \<^verbatim>\<open>push\<close> is not a function.
\<close>

theorem getDevices_inherited_key_throws:
  "getDevices_parse (Some ''A1B2|iPhone 11|Booted|x|toString'') None =
     Inl (TypeError ''devices[sdk].push is not a function'')"
  by (simp add: getDevices_parse_def getDevices_forSdk_def truthy_def itemSegments_def trim_def
      is_white_space_def nth_opt_def property_key_def object_prototype_keys_def)

section \<open>Properties of createDevice\<close>

lemma replace_first_prefix: "pat \<noteq> [] \<Longrightarrow> replace_first pat rep (pat @ rest) = rep @ rest"
  by (cases pat) auto

text \<open>
  The value of the local variable \<^verbatim>\<open>udid\<close>: when the last line of the trimmed output
  is \<^verbatim>\<open>Create Ended: \<close> followed by \<open>rest\<close>, the first of the pieces of \<open>rest\<close>
  between \<^verbatim>\<open>|\<close>, trimmed. An output without such a line is not refused: its last
  line is read the same way.
\<close>

lemma createDevice_parse_Create_Ended:
  assumes "last (split_on CHR ''\<newline>'' (trim text)) = ''Create Ended: '' @ rest"
  shows "createDevice_parse \<lparr>stdout = Some text\<rparr> = Inr (trim (hd (split_on CHR ''|'' rest)))"
  using assms replace_first_prefix[of "''Create Ended: ''" "[]" rest]
  by (simp add: createDevice_parse_def)

lemma createDevice_parse_example:
  "createDevice_parse \<lparr>stdout = Some ''Creating iPhone 8\<newline>Create Ended: 1234-ABCD | iPhone 8, iOS 13.0\<newline>''\<rparr> =
     Inr ''1234-ABCD''"
  by (simp add: createDevice_parse_def trim_def is_white_space_def)

lemma createDevice_parse_other_output:
  "createDevice_parse \<lparr>stdout = Some ''Invalid runtime: iOS-13-0''\<rparr> = Inr ''Invalid runtime: iOS-13-0''"
  by (simp add: createDevice_parse_def trim_def is_white_space_def)

text \<open>
  C4. \<^verbatim>\<open>createDevice\<close> never extracts a udid: the awaited
  \<^verbatim>\<open>simExec('create', 0, [deviceTypeId, runtimeId])\<close> throws
  \<^verbatim>\<open>ReferenceError: ob is not defined\<close> before the tool runs, the handler finds no
  \<^verbatim>\<open>stderr\<close> on that error, and the call fails with the error
  \<^verbatim>\<open>Error creating device type: <deviceTypeId> - Exception: \<close>, whatever the tool
  would print, also \<^verbatim>\<open>Create Ended: 1234-ABCD | iPhone 8, iOS 13.0\<close>.
\<close>

theorem createDevice_always_throws:
  "createDevice plat deviceTypeId runtimeId tr =
     (Inl (new_Error (''Error creating device type: '' @ deviceTypeId @ '' - Exception: '')),
      tr @ [Exec \<lparr>exe = ''fbsimctl'', argv = [''create'', deviceTypeId, runtimeId], opt_timeout = 0,
                   opt_env = process_env plat\<rparr>])"
  by (simp add: createDevice_def simExec_throws defaults_Nil createDevice_catch_def
      ReferenceError_def truthy_def errorAndThrow_def)

section \<open>Properties of getRuntimeID\<close>

text \<open>
  C3. When the listing has no runtime, the scan of \<^verbatim>\<open>getRuntimeID\<close> returns the
  undefined value; when it has at least one, the first evaluation of the condition throws
  \<^verbatim>\<open>ReferenceError: item is not defined\<close>, whatever the names of the runtimes and
  whatever \<open>sdkName\<close>: no identifier is ever returned.
\<close>

theorem getRuntimeID_item_not_defined:
  "(JSON_parse_runtimes printed = Inr [] \<longrightarrow>
      getRuntimeID_scan JSON_parse_runtimes sdkName printed = Inr None) \<and>
   (\<forall>runtime runtimes. JSON_parse_runtimes printed = Inr (runtime # runtimes) \<longrightarrow>
      getRuntimeID_scan JSON_parse_runtimes sdkName printed =
        Inl (ReferenceError ''item is not defined''))"
  by (simp add: getRuntimeID_scan_def item_def)

theorem getRuntimeID_item_not_defined_witness:
  "getRuntimeID_scan
     (\<lambda>printed. Inr [\<lparr>runtime_name = ''iOS 10.2'',
                       runtime_identifier = ''com.apple.CoreSimulator.SimRuntime.iOS-10-2''\<rparr>])
     ''iOS 10.2'' (Some ''(the JSON listing)'') =
     Inl (ReferenceError ''item is not defined'')"
  using getRuntimeID_item_not_defined[
      of "\<lambda>printed. Inr [\<lparr>runtime_name = ''iOS 10.2'',
                            runtime_identifier = ''com.apple.CoreSimulator.SimRuntime.iOS-10-2''\<rparr>]"
         "Some ''(the JSON listing)''" "''iOS 10.2''"]
  by simp

text \<open>
  The scan is never reached: the awaited \<^verbatim>\<open>simExec('list', 0, ['-j'])\<close> throws first.
\<close>

lemma getRuntimeID_ob_not_defined:
  "getRuntimeID plat JSON_parse_runtimes sdkName tr =
     (Inl (ReferenceError ''ob is not defined''),
      tr @ [Exec \<lparr>exe = ''fbsimctl'', argv = [''list'', ''-j''], opt_timeout = 0,
                   opt_env = process_env plat\<rparr>])"
  by (simp add: getRuntimeID_def simExec_throws defaults_Nil)

section \<open>Properties of eraseDevice\<close>

text \<open>
  The retry primitive stops at a success; its trace when every call of \<open>fn\<close> adds the
  event \<open>a\<close>; its result when every call of \<open>fn\<close> fails.
\<close>

lemma retryInterval_from_success:
  "tries < times' \<Longrightarrow> fn tr = (Inr res, tr') \<Longrightarrow>
   retryInterval_from times' ms tries fn tr = (Inr (Some res), tr')"
  by (subst retryInterval_from.simps) simp

lemma retryInterval_from_failure:
  "tries + 1 < times' \<Longrightarrow> fn tr = (Inl e, tr') \<Longrightarrow>
   retryInterval_from times' ms tries fn tr = retryInterval_from times' ms (tries + 1) fn (tr' @ [Sleep ms])"
  by (subst retryInterval_from.simps) simp

lemma attempts_Suc: "0 < k \<Longrightarrow> a # s # attempts k a s = attempts (Suc k) a s"
  by (cases k) auto

lemma retryInterval_from_trace:
  "(\<And>tr. snd (fn tr) = tr @ [a]) \<Longrightarrow>
   \<exists>k. k \<le> nat (times' - tries) \<and> (tries < times' \<longrightarrow> 0 < k) \<and>
       snd (retryInterval_from times' ms tries fn tr) = tr @ attempts k a (Sleep ms)"
proof (induction times' ms tries fn tr rule: retryInterval_from.induct)
  case (1 times' sleepMs tries fn tr)
  note step = retryInterval_from.simps[of times' sleepMs tries fn tr]
  show ?case
  proof (cases "tries < times'")
    case False
    then show ?thesis by (subst step) (auto intro: exI[of _ 0])
  next
    case True
    obtain r tr1 where f: "fn tr = (r, tr1)" by (cases "fn tr")
    with "1.prems"[of tr] have tr1: "tr1 = tr @ [a]" by simp
    show ?thesis
    proof (cases r)
      case (Inr res)
      with True f tr1 have "snd (retryInterval_from times' sleepMs tries fn tr) = tr @ attempts 1 a (Sleep sleepMs)"
        by (subst step) simp
      with True show ?thesis by (intro exI[of _ 1]) auto
    next
      case (Inl e)
      show ?thesis
      proof (cases "tries + 1 \<ge> times'")
        case True
        with \<open>tries < times'\<close> have eq: "tries + 1 = times'" by simp
        with Inl f tr1 \<open>tries < times'\<close>
        have "snd (retryInterval_from times' sleepMs tries fn tr) = tr @ attempts 1 a (Sleep sleepMs)"
          by (subst step) simp
        with \<open>tries < times'\<close> show ?thesis by (intro exI[of _ 1]) auto
      next
        case False
        then have ne: "tries + 1 \<noteq> times'" by simp
        from "1.IH"[OF \<open>tries < times'\<close> f[symmetric] Inl refl False "1.prems"]
        obtain k where k: "k \<le> nat (times' - (tries + 1))" "0 < k"
          and t: "snd (retryInterval_from times' sleepMs (tries + 1) fn (tr1 @ [Sleep sleepMs])) =
                  (tr1 @ [Sleep sleepMs]) @ attempts k a (Sleep sleepMs)"
          using False ne by auto
        have "snd (retryInterval_from times' sleepMs tries fn tr) =
                snd (retryInterval_from times' sleepMs (tries + 1) fn (tr1 @ [Sleep sleepMs]))"
          using Inl f \<open>tries < times'\<close> False ne by (subst step) simp
        also have "\<dots> = tr @ attempts (Suc k) a (Sleep sleepMs)"
          using t tr1 attempts_Suc[OF k(2), of a "Sleep sleepMs"] by simp
        finally show ?thesis using k \<open>tries < times'\<close> by (intro exI[of _ "Suc k"]) auto
      qed
    qed
  qed
qed

lemma retryInterval_from_all_fail:
  "(\<And>tr. fn tr = (Inl e, tr @ [a])) \<Longrightarrow>
   retryInterval_from times' ms tries fn tr =
     (if tries < times' then Inl e else Inr None, tr @ attempts (nat (times' - tries)) a (Sleep ms))"
proof (induction times' ms tries fn tr rule: retryInterval_from.induct)
  case (1 times' sleepMs tries fn tr)
  note step = retryInterval_from.simps[of times' sleepMs tries fn tr]
  show ?case
  proof (cases "tries < times'")
    case False
    then show ?thesis by (subst step) auto
  next
    case True
    have f: "fn tr = (Inl e, tr @ [a])" by (rule "1.prems")
    show ?thesis
    proof (cases "tries + 1 \<ge> times'")
      case True
      with \<open>tries < times'\<close> have eq: "times' - tries = 1" by simp
      with f \<open>tries < times'\<close> True show ?thesis by (subst step) simp
    next
      case False
      then have ne: "tries + 1 \<noteq> times'" by simp
      from False have n: "nat (times' - tries) = Suc (nat (times' - (tries + 1)))" by simp
      from False have pos: "0 < nat (times' - (tries + 1))" by simp
      have ih: "retryInterval_from times' sleepMs (tries + 1) fn ((tr @ [a]) @ [Sleep sleepMs]) =
                  (Inl e, ((tr @ [a]) @ [Sleep sleepMs]) @ attempts (nat (times' - (tries + 1))) a (Sleep sleepMs))"
        using "1.IH"[OF \<open>tries < times'\<close> f[symmetric] refl refl False "1.prems"] ne False by simp
      have "retryInterval_from times' sleepMs tries fn tr =
              retryInterval_from times' sleepMs (tries + 1) fn ((tr @ [a]) @ [Sleep sleepMs])"
        using f \<open>tries < times'\<close> False ne by (subst step) simp
      with ih n \<open>tries < times'\<close> attempts_Suc[OF pos, of a "Sleep sleepMs"] show ?thesis by simp
    qed
  qed
qed

lemma parseInt_quotient_200:
  assumes "\<bar>t\<bar> \<le> 9007199254740991"
  shows "\<exists>r. parseInt_quotient t 200 = Some r \<and> nat (r - 0) = nat (t div 200) \<and> (0 < r \<longleftrightarrow> \<not> t < 200)"
proof (cases "t < 0")
  case True
  then have "t div 200 < 0" by simp
  moreover from True have "0 \<le> (- t) div 200" by simp
  ultimately show ?thesis using True assms by (simp add: parseInt_quotient_def)
next
  case False
  have "0 < t div 200 \<longleftrightarrow> 200 \<le> t"
    by (simp add: pos_imp_zdiv_pos_iff)
  then show ?thesis using False assms by (auto simp add: parseInt_quotient_def)
qed

lemma eraseDevice_result:
  assumes "\<bar>case timeout of None \<Rightarrow> 1000 | Some t \<Rightarrow> t\<bar> \<le> 9007199254740991"
  shows "eraseDevice plat udid' timeout tr =
           Some (if (case timeout of None \<Rightarrow> 1000 | Some t \<Rightarrow> t) < 200 then Inr ()
                 else Inl (ReferenceError ''ob is not defined''),
                 tr @ attempts (nat ((case timeout of None \<Rightarrow> 1000 | Some t \<Rightarrow> t) div 200))
                        (Exec \<lparr>exe = ''fbsimctl'', argv = [''erase'', udid'], opt_timeout = 10000,
                               opt_env = process_env plat\<rparr>)
                        (Sleep 200))"
proof -
  define t where "t = (case timeout of None \<Rightarrow> 1000 | Some t \<Rightarrow> t)"
  define a where "a = Exec \<lparr>exe = ''fbsimctl'', argv = [''erase'', udid'], opt_timeout = 10000,
                        opt_env = process_env plat\<rparr>"
  define e where "e = ReferenceError ''ob is not defined''"
  define loopFn :: "event list \<Rightarrow> (js_error + unit) \<times> event list"
    where "loopFn = (\<lambda>tr. case simExec plat ''erase'' 10000 [udid'] [] True tr of
                            (Inl e, tr') \<Rightarrow> (Inl e, tr')
                          | (Inr out, tr') \<Rightarrow> (Inr (), tr'))"
  have loop: "loopFn tr = (Inl e, tr @ [a])" for tr
    by (simp add: loopFn_def a_def e_def simExec_throws defaults_Nil)
  from assms have "\<bar>t\<bar> \<le> 9007199254740991" by (simp add: t_def)
  from parseInt_quotient_200[OF this]
  obtain r where r: "parseInt_quotient t 200 = Some r" and n: "nat (r - 0) = nat (t div 200)"
    and pos: "0 < r \<longleftrightarrow> \<not> t < 200" by blast
  have "retryInterval r 200 loopFn tr =
          (if 0 < r then Inl e else Inr None, tr @ attempts (nat (r - 0)) a (Sleep 200))"
    unfolding retryInterval_def by (rule retryInterval_from_all_fail) (rule loop)
  then have "eraseDevice plat udid' timeout tr =
          Some (if t < 200 then Inr () else Inl e, tr @ attempts (nat (t div 200)) a (Sleep 200))"
    using r pos unfolding n
    by (simp add: eraseDevice_def t_def[symmetric] loopFn_def[symmetric] Let_def)
  then show ?thesis unfolding t_def a_def e_def .
qed

text \<open>
  C6. With \<open>t\<close> the timeout (1000 when left out), a safe integer, \<^verbatim>\<open>eraseDevice\<close>
  calls \<^verbatim>\<open>simExec('erase', 10000, [udid])\<close> \<open>floor (t / 200)\<close> times (never when
  \<open>t < 200\<close>), with a sleep of 200 between two calls, and every one of these calls throws
  \<^verbatim>\<open>ReferenceError: ob is not defined\<close> before the tool runs: no attempt is an
  invocation of the tool, no timeout reaches it, and for \<open>t \<ge> 200\<close> the call fails with
  that error. What \<^verbatim>\<open>exec\<close> of \<^verbatim>\<open>teen_process\<close> would do makes no difference
  to the call (\<open>run\<close> below is any other outcome of it).
\<close>

theorem eraseDevice_no_attempt_runs_tool:
  assumes "\<bar>case timeout of None \<Rightarrow> 1000 | Some t \<Rightarrow> t\<bar> \<le> 9007199254740991"
  shows "eraseDevice plat udid' timeout tr =
           Some (if (case timeout of None \<Rightarrow> 1000 | Some t \<Rightarrow> t) < 200 then Inr ()
                 else Inl (ReferenceError ''ob is not defined''),
                 tr @ attempts (nat ((case timeout of None \<Rightarrow> 1000 | Some t \<Rightarrow> t) div 200))
                        (Exec \<lparr>exe = ''fbsimctl'', argv = [''erase'', udid'], opt_timeout = 10000,
                               opt_env = process_env plat\<rparr>)
                        (Sleep 200)) \<and>
         eraseDevice (plat\<lparr>exec := run\<rparr>) udid' timeout tr = eraseDevice plat udid' timeout tr"
  using eraseDevice_result[OF assms, of plat udid' tr]
        eraseDevice_result[OF assms, of "plat\<lparr>exec := run\<rparr>" udid' tr]
  by simp

theorem eraseDevice_no_attempt_runs_tool_witness:
  "eraseDevice (platform_printing []) ''A1B2'' None [] =
     Some (Inl (ReferenceError ''ob is not defined''),
       [Exec \<lparr>exe = ''fbsimctl'', argv = [''erase'', ''A1B2''], opt_timeout = 10000, opt_env = []\<rparr>,
        Sleep 200,
        Exec \<lparr>exe = ''fbsimctl'', argv = [''erase'', ''A1B2''], opt_timeout = 10000, opt_env = []\<rparr>,
        Sleep 200,
        Exec \<lparr>exe = ''fbsimctl'', argv = [''erase'', ''A1B2''], opt_timeout = 10000, opt_env = []\<rparr>,
        Sleep 200,
        Exec \<lparr>exe = ''fbsimctl'', argv = [''erase'', ''A1B2''], opt_timeout = 10000, opt_env = []\<rparr>,
        Sleep 200,
        Exec \<lparr>exe = ''fbsimctl'', argv = [''erase'', ''A1B2''], opt_timeout = 10000, opt_env = []\<rparr>]) \<and>
   eraseDevice
     ((platform_printing [])\<lparr>exec := (\<lambda>tr inv. Inl \<lparr>kind = ''Error'', message = ''exit 1'', stderr = None\<rparr>)\<rparr>)
     ''A1B2'' None [] =
   eraseDevice (platform_printing []) ''A1B2'' None []"
proof -
  have five: "nat ((case None of None \<Rightarrow> 1000 | Some t \<Rightarrow> t) div 200) = Suc (Suc (Suc (Suc (Suc 0))))"
    by simp
  have bound: "\<bar>case None of None \<Rightarrow> 1000 | Some t \<Rightarrow> t\<bar> \<le> (9007199254740991 :: int)"
    by simp
  from eraseDevice_no_attempt_runs_tool[of None "platform_printing []" "''A1B2''" "[]"
      "\<lambda>tr inv. Inl \<lparr>kind = ''Error'', message = ''exit 1'', stderr = None\<rparr>", OF bound]
  show ?thesis
    unfolding five by (simp add: platform_printing_def platform_with_def)
qed

section \<open>Properties of getScreenshot\<close>

text \<open>
  After the tool call: when the file is read, the path is removed and the encoded bytes
  are returned; a read that fails ends the function before the removal, and the path stays.
\<close>

lemma getScreenshot_read_success:
  "fs_readFile plat tr2 path = Inr img \<Longrightarrow> fs_rimraf plat (tr2 @ [ReadFile path]) path = Inr () \<Longrightarrow>
   getScreenshot_read plat path tr2 = (Inr (toString_base64 plat img), tr2 @ [ReadFile path, Rimraf path])"
  by (simp add: getScreenshot_read_def)

lemma getScreenshot_read_failure:
  "fs_readFile plat tr2 path = Inl e \<Longrightarrow>
   getScreenshot_read plat path tr2 = (Inl e, tr2 @ [ReadFile path])"
  by (simp add: getScreenshot_read_def)

text \<open>
  C2. When \<^verbatim>\<open>tempDir.path\<close> has allocated the path, \<^verbatim>\<open>getScreenshot\<close> awaits
  \<^verbatim>\<open>simExec('io', 0, [udid, 'screenshot', path])\<close>, which throws
  \<^verbatim>\<open>ReferenceError: ob is not defined\<close>; no \<^verbatim>\<open>try\<close> or \<^verbatim>\<open>finally\<close> stands
  around it, so the call fails there and \<^verbatim>\<open>fs.rimraf\<close> is never called: the path is
  not removed.
\<close>

theorem getScreenshot_leaves_path:
  assumes "tempDir_path plat tr (''screenshot-'' @ udid') ''.png'' = Inr path"
  shows "getScreenshot plat udid' tr =
           (Inl (ReferenceError ''ob is not defined''),
            tr @ [TempDirPath (''screenshot-'' @ udid') ''.png'',
                  Exec \<lparr>exe = ''fbsimctl'', argv = [''io'', udid', ''screenshot'', path], opt_timeout = 0,
                         opt_env = process_env plat\<rparr>]) \<and>
         Rimraf path \<notin> set (drop (length tr) (snd (getScreenshot plat udid' tr)))"
  using assms by (simp add: getScreenshot_def simExec_throws defaults_Nil)

theorem getScreenshot_leaves_path_witness:
  "getScreenshot (platform_printing []) ''A1B2'' [] =
     (Inl (ReferenceError ''ob is not defined''),
      [TempDirPath ''screenshot-A1B2'' ''.png'',
       Exec \<lparr>exe = ''fbsimctl'', argv = [''io'', ''A1B2'', ''screenshot'', ''/tmp/screenshot-A1B2.png''],
             opt_timeout = 0, opt_env = []\<rparr>]) \<and>
   Rimraf ''/tmp/screenshot-A1B2.png'' \<notin> set (snd (getScreenshot (platform_printing []) ''A1B2'' []))"
proof -
  have path: "tempDir_path (platform_printing []) [] (''screenshot-'' @ ''A1B2'') ''.png'' =
                Inr ''/tmp/screenshot-A1B2.png''"
    by (simp add: platform_printing_def platform_with_def)
  from getScreenshot_leaves_path[OF path] show ?thesis
    by (simp add: platform_printing_def platform_with_def)
qed

section \<open>Properties of the matcher\<close>

text \<open>
  A match leaves a suffix of the text; a pattern without groups leaves the captures alone;
  a group records the text that it matched. For \<^verbatim>\<open>+\<close> on a character class the
  matcher tries the longest run first.
\<close>

lemma matches_at_suffix:
  "p \<in> set (matches_at r t c) \<Longrightarrow> suffix (fst p) t"
proof (induction r t c arbitrary: p rule: matches_at.induct)
  case (1 q s c)
  then show ?case by (auto simp: suffix_drop split: if_splits)
next
  case (2 k s c)
  then show ?case by (auto simp: suffix_Cons split: list.splits if_splits)
next
  case (3 a b s c)
  from "3.prems" obtain q where q: "q \<in> set (matches_at a s c)" and p: "p \<in> set (matches_at b (fst q) (snd q))"
    by auto
  from "3.IH"(1)[OF q] "3.IH"(2)[OF q p] show ?case by (rule suffix_order.trans[rotated])
next
  case (4 a s c)
  from "4.prems" consider "p = (s, c)"
    | q where "q \<in> set (matches_at a s c)" "length (fst q) < length s" "p \<in> set (matches_at (Star a) (fst q) (snd q))"
    by (subst (asm) matches_at.simps(4)) (auto split: if_splits)
  then show ?case
  proof cases
    case 1
    then show ?thesis by simp
  next
    case 2
    from "4.IH"(1)[OF 2(1)] "4.IH"(2)[OF 2(1) 2(2) 2(3)] show ?thesis by (rule suffix_order.trans[rotated])
  qed
next
  case (5 a s c)
  then show ?case by (cases p) auto
next
  case (6 n a s c)
  then show ?case by (cases p) auto
qed




lemma matches_at_SeqE:
  assumes "p \<in> set (matches_at (Seq a b) s c)"
  obtains q where "q \<in> set (matches_at a s c)" "p \<in> set (matches_at b (fst q) (snd q))"
  using assms by auto












section \<open>Properties of lineRe on a well-formed device line\<close>





















section \<open>Properties of deviceSectionRe on a listing\<close>

lemma deviceSectionRe_eq:
  "deviceSectionRe =
     Seq (Lit ''-- iOS '') (Seq (Group 1 (Plus (Cls Any_char))) (Seq (Lit '' --'') (Star section_line)))"
  by (simp add: deviceSectionRe_def section_line_def)












lemma deviceSectionRe_not_at_end:
  "matches_at deviceSectionRe [] c = []"
  by (simp add: deviceSectionRe_eq)

text \<open>
  A match of \<open>deviceSectionRe\<close> is never empty, so the loop over the matches always
  ends.
\<close>

lemma deviceSectionRe_consumes:
  assumes "p \<in> set (matches_at deviceSectionRe s c)"
  shows "length (fst p) < length s"
proof -
  from assms obtain q where q: "q \<in> set (matches_at (Lit ''-- iOS '') s c)"
    and p: "p \<in> set (matches_at (Seq (Group 1 (Plus (Cls Any_char))) (Seq (Lit '' --'') (Star section_line)))
                        (fst q) (snd q))"
    unfolding deviceSectionRe_eq by (rule matches_at_SeqE)
  from q have "length (fst q) < length s" by (auto split: if_splits simp: prefix_def)
  moreover from matches_at_suffix[OF p] have "length (fst p) \<le> length (fst q)"
    by (rule suffix_length_le)
  ultimately show ?thesis by simp
qed

lemma regex_exec_deviceSectionRe_shorter:
  "regex_exec deviceSectionRe s = Some (m, rest) \<Longrightarrow> length rest < length s"
proof (induction s)
  case Nil
  then show ?case by (simp add: deviceSectionRe_not_at_end)
next
  case (Cons x xs)
  show ?case
  proof (cases "matches_at deviceSectionRe (x # xs) (\<lambda>n. None)")
    case Nil
    with Cons show ?thesis by fastforce
  next
    case (Cons p ps)
    then have "p \<in> set (matches_at deviceSectionRe (x # xs) (\<lambda>n. None))" by simp
    from deviceSectionRe_consumes[OF this] Cons Cons.prems show ?thesis by simp
  qed
qed

lemma exec_all_deviceSectionRe_returns: "\<exists>ms. exec_all deviceSectionRe s = Some ms"
proof (induction s rule: length_induct)
  case (1 s)
  show ?case
  proof (cases "regex_exec deviceSectionRe s")
    case None
    then show ?thesis by (subst exec_all.simps) simp
  next
    case (Some a)
    obtain m rest where a: "a = (m, rest)" by (cases a)
    from regex_exec_deviceSectionRe_shorter[OF Some[unfolded a]] have len: "length rest < length s" .
    with 1 obtain ms where "exec_all deviceSectionRe rest = Some ms" by blast
    with Some a len show ?thesis by (subst exec_all.simps) simp
  qed
qed

















section \<open>Properties of getDevicesByParsing\<close>

















text \<open>
  The loop over the matches of \<open>deviceSectionRe\<close> always ends: the parser returns or
  throws on every text.
\<close>

lemma getDevicesByParsing_parse_returns: "\<exists>r. getDevicesByParsing_parse printed = Some r"
proof -
  from exec_all_deviceSectionRe_returns
  obtain ms where "exec_all deviceSectionRe (case printed of None \<Rightarrow> ''undefined'' | Some s \<Rightarrow> s) = Some ms"
    by blast
  then show ?thesis by (simp add: getDevicesByParsing_parse_def)
qed

text \<open>
  The parser is never reached: the awaited \<^verbatim>\<open>simExec('list', 0, ['devices'])\<close> throws
  first.
\<close>

lemma getDevicesByParsing_ob_not_defined:
  "getDevicesByParsing plat tr =
     Some (Inl (ReferenceError ''ob is not defined''),
           tr @ [Exec \<lparr>exe = ''fbsimctl'', argv = [''list'', ''devices''], opt_timeout = 0,
                        opt_env = process_env plat\<rparr>])"
  by (simp add: getDevicesByParsing_def simExec_throws defaults_Nil)


end
